theory Spec2Isabelle
  imports Complex_Main
begin

section \<open>Python values, exceptions and dictionaries\<close>

text \<open>
  The functions of \<^verbatim>\<open>prices.py\<close> raise nothing themselves, but the calls they make can:
  the market-data client may fail in any way (\<open>ProviderFailure\<close>), a column lookup in a
  table raises \<open>KeyError\<close> for a label that is not a column, and positional access into
  an empty series raises \<open>IndexError\<close>. An exception is the left summand of the result.
\<close>

datatype error = ProviderFailure string | KeyError string | IndexError

text \<open>
  The values of the provider's info bag are of Python type \<open>Any\<close>. The code only ever
  tells strings (the ticker, the placeholder) from everything else.
\<close>

datatype 'a pyval = PyStr string | PyOther 'a

text \<open>
  A Python \<open>dict\<close> keeps its keys unique and in insertion order: an association list
  whose keys are distinct. \<open>d[k] = v\<close> replaces the value of an existing key where it
  stands and appends a new key at the end.
\<close>

type_synonym ('k, 'v) dict = "('k \<times> 'v) list"

definition dict_keys :: "('k, 'v) dict \<Rightarrow> 'k list" where
  "dict_keys d = map fst d"

fun setitem :: "('k, 'v) dict \<Rightarrow> 'k \<Rightarrow> 'v \<Rightarrow> ('k, 'v) dict" where
  "setitem [] k v = [(k, v)]"
| "setitem ((k', v') # d) k v =
     (if k' = k then (k', v) # d else (k', v') # setitem d k v)"

text \<open>\<open>d.get(k, dflt)\<close>\<close>

definition dict_get :: "('k, 'v) dict \<Rightarrow> 'k \<Rightarrow> 'v \<Rightarrow> 'v" where
  "dict_get d k dflt = (case map_of d k of None \<Rightarrow> dflt | Some v \<Rightarrow> v)"

section \<open>Tables (pandas DataFrame) as far as the code uses them\<close>

text \<open>
  A table has column labels and an ordered sequence of records; a record is an index
  value (the timestamp) and one cell for every column label. Only the cells under the
  labels in \<open>columns\<close> are part of the table. A series is one column: the index values
  with their cells.
\<close>

record ('i, 'v) dataframe =
  columns :: "string list"
  rows :: "('i \<times> (string \<Rightarrow> 'v)) list"

type_synonym ('i, 'v) series = "('i \<times> 'v) list"

text \<open>\<open>df.empty\<close>: true when any axis has length 0.\<close>

definition df_empty :: "('i, 'v) dataframe \<Rightarrow> bool" where
  "df_empty df = (columns df = [] \<or> rows df = [])"

text \<open>\<open>df[label]\<close>: the column as a series, \<open>KeyError\<close> when there is no such column.\<close>

definition df_getitem :: "('i, 'v) dataframe \<Rightarrow> string \<Rightarrow> error + ('i, 'v) series" where
  "df_getitem df label =
     (if label \<in> set (columns df)
      then Inr (map (\<lambda>(i, r). (i, r label)) (rows df))
      else Inl (KeyError label))"

text \<open>\<open>s.iloc[-1]\<close>: the last cell, \<open>IndexError\<close> on an empty series.\<close>

definition iloc_last :: "('i, 'v) series \<Rightarrow> error + 'v" where
  "iloc_last s = (if s = [] then Inl IndexError else Inr (snd (last s)))"

section \<open>The market-data provider\<close>

text \<open>
  The provider is external. It answers two queries for a ticker symbol: the price
  history over a period token, and the info bag. An answer may depend on everything
  that happened before (the provider's own state \<open>'s\<close>, which the query may change),
  and it may be a failure.
\<close>

record ('s, 'i, 'v, 'a) provider =
  history :: "string \<Rightarrow> string \<Rightarrow> 's \<Rightarrow> (error + ('i, 'v) dataframe) \<times> 's"
  info :: "string \<Rightarrow> 's \<Rightarrow> (error + (string, 'a pyval) dict) \<times> 's"

text \<open>
  The world the program runs in: the provider's state and the trace of the queries
  issued so far, oldest first.
\<close>

datatype call = HistoryCall string string | InfoCall string

record 's world =
  calls :: "call list"
  pstate :: 's

text \<open>
  \<open>yf.Ticker(ticker)\<close> builds a handle and queries nothing; \<open>stock.history(period=p)\<close>
  and \<open>stock.info\<close> each issue one query.
\<close>

datatype ticker_obj = Ticker string

fun Ticker_history ::
  "('s, 'i, 'v, 'a) provider \<Rightarrow> ticker_obj \<Rightarrow> string \<Rightarrow> 's world
     \<Rightarrow> (error + ('i, 'v) dataframe) \<times> 's world" where
  "Ticker_history P (Ticker t) period w =
     (case history P t period (pstate w) of
        (r, s') \<Rightarrow> (r, \<lparr>calls = calls w @ [HistoryCall t period], pstate = s'\<rparr>))"

fun Ticker_info ::
  "('s, 'i, 'v, 'a) provider \<Rightarrow> ticker_obj \<Rightarrow> 's world
     \<Rightarrow> (error + (string, 'a pyval) dict) \<times> 's world" where
  "Ticker_info P (Ticker t) w =
     (case info P t (pstate w) of
        (r, s') \<Rightarrow> (r, \<lparr>calls = calls w @ [InfoCall t], pstate = s'\<rparr>))"

section \<open>The functions of prices.py\<close>

definition get_current_price ::
  "('s, 'i, 'v, 'a) provider \<Rightarrow> string \<Rightarrow> 's world \<Rightarrow> (error + 'v option) \<times> 's world" where
  "get_current_price P ticker w =
     (let stock = Ticker ticker in
      case Ticker_history P stock ''1d'' w of
        (Inl e, w') \<Rightarrow> (Inl e, w')
      | (Inr data, w') \<Rightarrow>
          if \<not> df_empty data then
            (case df_getitem data ''Close'' of
               Inl e \<Rightarrow> (Inl e, w')
             | Inr closes \<Rightarrow>
                 (case iloc_last closes of
                    Inl e \<Rightarrow> (Inl e, w')
                  | Inr current_price \<Rightarrow> (Inr (Some current_price), w')))
          else (Inr None, w'))"

text \<open>
  The parameter \<open>period\<close> has the default \<open>'1mo'\<close>: the argument is \<open>None\<close> when the
  caller leaves it out.
\<close>

definition get_historical_prices ::
  "('s, 'i, 'v, 'a) provider \<Rightarrow> string \<Rightarrow> string option \<Rightarrow> 's world
     \<Rightarrow> (error + ('i, 'v) dataframe) \<times> 's world" where
  "get_historical_prices P ticker period_arg w =
     (let period = (case period_arg of None \<Rightarrow> ''1mo'' | Some p \<Rightarrow> p);
          stock = Ticker ticker;
          historical_data = Ticker_history P stock period w
      in historical_data)"

definition get_stock_info ::
  "('s, 'i, 'v, 'a) provider \<Rightarrow> string \<Rightarrow> 's world
     \<Rightarrow> (error + (string, 'a pyval) dict) \<times> 's world" where
  "get_stock_info P ticker w =
     (let stock = Ticker ticker in
      case Ticker_info P stock w of
        (Inl e, w') \<Rightarrow> (Inl e, w')
      | (Inr info_bag, w') \<Rightarrow>
          (Inr [(''Symbol'', PyStr ticker),
                (''Company Name'', dict_get info_bag ''longName'' (PyStr ''N/A'')),
                (''Current Price'', dict_get info_bag ''currentPrice'' (PyStr ''N/A'')),
                (''Previous Close'', dict_get info_bag ''previousClose'' (PyStr ''N/A'')),
                (''Open'', dict_get info_bag ''open'' (PyStr ''N/A'')),
                (''Day High'', dict_get info_bag ''dayHigh'' (PyStr ''N/A'')),
                (''Day Low'', dict_get info_bag ''dayLow'' (PyStr ''N/A'')),
                (''Volume'', dict_get info_bag ''volume'' (PyStr ''N/A'')),
                (''Market Cap'', dict_get info_bag ''marketCap'' (PyStr ''N/A''))], w'))"

text \<open>
  The loop of \<open>get_multiple_stocks\<close>, with the dictionary \<open>prices\<close> built so far: an
  exception of \<open>get_current_price\<close> leaves the loop and the function.
\<close>

fun get_multiple_stocks_loop ::
  "('s, 'i, 'v, 'a) provider \<Rightarrow> string list \<Rightarrow> (string, 'v option) dict \<Rightarrow> 's world
     \<Rightarrow> (error + (string, 'v option) dict) \<times> 's world" where
  "get_multiple_stocks_loop P [] prices w = (Inr prices, w)"
| "get_multiple_stocks_loop P (ticker # tickers) prices w =
     (case get_current_price P ticker w of
        (Inl e, w') \<Rightarrow> (Inl e, w')
      | (Inr price, w') \<Rightarrow> get_multiple_stocks_loop P tickers (setitem prices ticker price) w')"

definition get_multiple_stocks ::
  "('s, 'i, 'v, 'a) provider \<Rightarrow> string list \<Rightarrow> 's world
     \<Rightarrow> (error + (string, 'v option) dict) \<times> 's world" where
  "get_multiple_stocks P tickers w = get_multiple_stocks_loop P tickers [] w"

section \<open>Providers and tables used in the scenarios\<close>

text \<open>The table of one daily record with the given closing value (the same in every cell).\<close>

definition day_table :: "real \<Rightarrow> (nat, real) dataframe" where
  "day_table c =
     \<lparr>columns = [''Open'', ''High'', ''Low'', ''Close'', ''Volume''],
      rows = [(0, \<lambda>_. c)]\<rparr>"

text \<open>The table a provider gives for a symbol it has no data for: the labels, no record.\<close>

definition empty_table :: "(nat, real) dataframe" where
  "empty_table =
     \<lparr>columns = [''Open'', ''High'', ''Low'', ''Close'', ''Volume''], rows = []\<rparr>"

text \<open>Five daily records, indexed 0 to 4.\<close>

definition five_days :: "(nat, real) dataframe" where
  "five_days =
     \<lparr>columns = [''Open'', ''High'', ''Low'', ''Close'', ''Volume''],
      rows = map (\<lambda>n. (n, \<lambda>_. real n)) [0, 1, 2, 3, 4]\<rparr>"

definition start :: "nat world" where
  "start = \<lparr>calls = [], pstate = 0\<rparr>"

text \<open>
  A provider whose state counts the queries answered: the first history query gets a
  table closing at 10, every later one a table closing at 12.
\<close>

definition ten_then_twelve :: "(nat, nat, real, real) provider" where
  "ten_then_twelve =
     \<lparr>history = (\<lambda>t p n. (Inr (day_table (if n = 0 then 10 else 12)), Suc n)),
      info = (\<lambda>t n. (Inr [], Suc n))\<rparr>"

text \<open>
  A provider whose answers depend on the symbol only: it fails for \<open>BAD\<close>, knows two
  symbols, and has no data for any other. Its info bag has three fields.
\<close>

definition fixed_quotes :: "(nat, nat, real, real) provider" where
  "fixed_quotes =
     \<lparr>history = (\<lambda>t p n.
        (if t = ''BAD'' then Inl (ProviderFailure ''timeout'')
         else if t = ''AAPL'' then Inr (day_table 150)
         else if t = ''MSFT'' then Inr (day_table 300)
         else Inr empty_table, Suc n)),
      info = (\<lambda>t n.
        (Inr [(''symbol'', PyStr ''XXXX''), (''longName'', PyStr ''Apple Inc.''),
              (''volume'', PyOther 5)], Suc n))\<rparr>"

text \<open>A provider that answers the period token \<open>5d\<close> with five daily records.\<close>

definition week :: "(nat, nat, real, real) provider" where
  "week =
     \<lparr>history = (\<lambda>t p n. (Inr (if p = ''5d'' then five_days else empty_table), Suc n)),
      info = (\<lambda>t n. (Inr [], Suc n))\<rparr>"

text \<open>
  A provider that answers the period token \<open>1mo\<close> with a record closing at 30 and has
  no data for any other token.
\<close>

definition month :: "(nat, nat, real, real) provider" where
  "month =
     \<lparr>history = (\<lambda>t p n. (Inr (if p = ''1mo'' then day_table 30 else empty_table), Suc n)),
      info = (\<lambda>t n. (Inr [], Suc n))\<rparr>"

text \<open>
  The provider field that \<open>get_stock_info\<close> reads for each key of its result, other
  than \<open>Symbol\<close> (lines 55 to 62 of the source).
\<close>

definition stock_info_fields :: "(string \<times> string) list" where
  "stock_info_fields =
     [(''Company Name'', ''longName''), (''Current Price'', ''currentPrice''),
      (''Previous Close'', ''previousClose''), (''Open'', ''open''),
      (''Day High'', ''dayHigh''), (''Day Low'', ''dayLow''),
      (''Volume'', ''volume''), (''Market Cap'', ''marketCap'')]"

section \<open>Dictionaries\<close>

lemma map_of_setitem: "map_of (setitem d k v) = (map_of d)(k \<mapsto> v)"
  by (induction d k v rule: setitem.induct) auto

lemma keys_setitem:
  "dict_keys (setitem d k v) =
     (if k \<in> set (dict_keys d) then dict_keys d else dict_keys d @ [k])"
  unfolding dict_keys_def
  by (induction d k v rule: setitem.induct) auto

lemma distinct_setitem:
  "distinct (dict_keys d) \<Longrightarrow> distinct (dict_keys (setitem d k v))"
  by (simp add: keys_setitem)

section \<open>The quote fetcher\<close>

text \<open>Whatever the provider answers, one call of the fetcher issues one history query.\<close>

lemma get_current_price_calls:
  "calls (snd (get_current_price P t w)) = calls w @ [HistoryCall t ''1d'']"
  by (simp add: get_current_price_def split: prod.splits sum.splits)

text \<open>A failure of the provider is the fetcher's failure.\<close>

lemma get_current_price_provider_failure:
  assumes "history P ticker ''1d'' (pstate w) = (Inl e, s')"
  shows "get_current_price P ticker w =
           (Inl e, \<lparr>calls = calls w @ [HistoryCall ticker ''1d''], pstate = s'\<rparr>)"
  using assms by (simp add: get_current_price_def)

text \<open>A table with records but no column \<open>Close\<close> is a failure too.\<close>

lemma get_current_price_no_close_column:
  assumes "history P ticker ''1d'' (pstate w) = (Inr data, s')"
      and "\<not> df_empty data"
      and "''Close'' \<notin> set (columns data)"
  shows "fst (get_current_price P ticker w) = Inl (KeyError ''Close'')"
  using assms by (simp add: get_current_price_def df_getitem_def)

text \<open>
  C2: when the one-day history query of a ticker returns a table that is not empty, the
  fetcher returns the cell under \<open>Close\<close> of the last record of that table.
\<close>

theorem get_current_price_last_close:
  assumes "history P ticker ''1d'' (pstate w) = (Inr data, s')"
      and "\<not> df_empty data"
      and "''Close'' \<in> set (columns data)"
  shows "get_current_price P ticker w =
           (Inr (Some (snd (last (rows data)) ''Close'')),
            \<lparr>calls = calls w @ [HistoryCall ticker ''1d''], pstate = s'\<rparr>)"
proof -
  from assms(2) have ne: "rows data \<noteq> []"
    by (simp add: df_empty_def)
  from assms(3) have col:
    "df_getitem data ''Close'' = Inr (map (\<lambda>(i, r). (i, r ''Close'')) (rows data))"
    by (simp add: df_getitem_def)
  from ne have "iloc_last (map (\<lambda>(i, r). (i, r ''Close'')) (rows data))
                  = Inr (snd (last (rows data)) ''Close'')"
    by (simp add: iloc_last_def last_map split_beta)
  with col assms(1,2) show ?thesis
    by (simp add: get_current_price_def)
qed

theorem get_current_price_last_close_witness:
  "history fixed_quotes ''MSFT'' ''1d'' (pstate start) = (Inr (day_table 300), 1)
   \<and> \<not> df_empty (day_table 300)
   \<and> ''Close'' \<in> set (columns (day_table 300))
   \<and> get_current_price fixed_quotes ''MSFT'' start =
       (Inr (Some 300), \<lparr>calls = [HistoryCall ''MSFT'' ''1d''], pstate = 1\<rparr>)"
proof -
  have h1: "history fixed_quotes ''MSFT'' ''1d'' (pstate start) = (Inr (day_table 300), 1)"
    by (simp add: fixed_quotes_def start_def)
  have h2: "\<not> df_empty (day_table 300)"
    by (simp add: df_empty_def day_table_def)
  have h3: "''Close'' \<in> set (columns (day_table 300))"
    by (simp add: day_table_def)
  from get_current_price_last_close [OF h1 h2 h3] h1 h2 h3 show ?thesis
    by (simp add: day_table_def start_def)
qed

text \<open>
  C3: when the one-day history query of a ticker returns an empty table, the fetcher
  returns \<open>None\<close>: no exception, and no number (so not the number zero).
\<close>

theorem get_current_price_no_data:
  fixes P :: "('s, 'i, 'v :: zero, 'a) provider"
  assumes "history P ticker ''1d'' (pstate w) = (Inr data, s')"
      and "df_empty data"
  shows "get_current_price P ticker w =
           (Inr None, \<lparr>calls = calls w @ [HistoryCall ticker ''1d''], pstate = s'\<rparr>)
         \<and> fst (get_current_price P ticker w) \<noteq> Inr (Some 0)
         \<and> (\<forall>e. fst (get_current_price P ticker w) \<noteq> Inl e)"
  using assms by (simp add: get_current_price_def)

theorem get_current_price_no_data_witness:
  "history fixed_quotes ''ZZZZ'' ''1d'' (pstate start) = (Inr empty_table, 1)
   \<and> df_empty empty_table
   \<and> get_current_price fixed_quotes ''ZZZZ'' start =
       (Inr None, \<lparr>calls = [HistoryCall ''ZZZZ'' ''1d''], pstate = 1\<rparr>)"
proof -
  have h1: "history fixed_quotes ''ZZZZ'' ''1d'' (pstate start) = (Inr empty_table, 1)"
    by (simp add: fixed_quotes_def start_def)
  have h2: "df_empty empty_table"
    by (simp add: df_empty_def empty_table_def)
  from get_current_price_no_data [OF h1 h2] h1 h2 show ?thesis
    by (simp add: start_def)
qed

section \<open>The history fetcher\<close>

text \<open>
  C6: for every ticker and period token, the history fetcher returns the table the
  provider answered with, as it is, after one history query with that token. In the
  scenario the token is \<open>5d\<close> and the table has five records.
\<close>

theorem get_historical_prices_unmodified:
  assumes "history P ticker period (pstate w) = (Inr table, s')"
  shows "get_historical_prices P ticker (Some period) w =
           (Inr table, \<lparr>calls = calls w @ [HistoryCall ticker period], pstate = s'\<rparr>)"
  using assms by (simp add: get_historical_prices_def Let_def)

theorem get_historical_prices_unmodified_witness:
  "history week ''AAPL'' ''5d'' (pstate start) = (Inr five_days, 1)
   \<and> get_historical_prices week ''AAPL'' (Some ''5d'') start =
       (Inr five_days, \<lparr>calls = [HistoryCall ''AAPL'' ''5d''], pstate = 1\<rparr>)
   \<and> length (rows five_days) = 5
   \<and> map fst (rows five_days) = [0, 1, 2, 3, 4]
   \<and> set [''Open'', ''High'', ''Low'', ''Close'', ''Volume''] \<subseteq> set (columns five_days)"
proof -
  have h: "history week ''AAPL'' ''5d'' (pstate start) = (Inr five_days, 1)"
    by (simp add: week_def start_def)
  from get_historical_prices_unmodified [OF h] h show ?thesis
    by (simp add: start_def five_days_def)
qed

text \<open>
  C10: a call of the history fetcher without a period argument asks the provider for
  the history of the ticker over the period token \<open>1mo\<close>, once, and returns the
  provider's answer to that query; it is the call with the explicit token \<open>1mo\<close>: the
  same query, the same result, the same world after it.
\<close>

theorem get_historical_prices_default_period:
  assumes "history P ticker ''1mo'' (pstate w) = (r, s')"
  shows "get_historical_prices P ticker None w =
           (r, \<lparr>calls = calls w @ [HistoryCall ticker ''1mo''], pstate = s'\<rparr>)
         \<and> get_historical_prices P ticker None w = Ticker_history P (Ticker ticker) ''1mo'' w
         \<and> get_historical_prices P ticker (Some ''1mo'') w = get_historical_prices P ticker None w"
  using assms by (simp add: get_historical_prices_def Let_def)

theorem get_historical_prices_default_period_witness:
  "history month ''AAPL'' ''1mo'' (pstate start) = (Inr (day_table 30), 1)
   \<and> get_historical_prices month ''AAPL'' None start =
       (Inr (day_table 30), \<lparr>calls = [HistoryCall ''AAPL'' ''1mo''], pstate = 1\<rparr>)
   \<and> get_historical_prices month ''AAPL'' (Some ''1mo'') start =
       (Inr (day_table 30), \<lparr>calls = [HistoryCall ''AAPL'' ''1mo''], pstate = 1\<rparr>)
   \<and> get_historical_prices month ''AAPL'' (Some ''5d'') start =
       (Inr empty_table, \<lparr>calls = [HistoryCall ''AAPL'' ''5d''], pstate = 1\<rparr>)
   \<and> rows (day_table 30) \<noteq> rows empty_table"
proof -
  have h: "history month ''AAPL'' ''1mo'' (pstate start) = (Inr (day_table 30), 1)"
    by (simp add: month_def start_def)
  have five: "get_historical_prices month ''AAPL'' (Some ''5d'') start =
       (Inr empty_table, \<lparr>calls = [HistoryCall ''AAPL'' ''5d''], pstate = 1\<rparr>)"
    by (simp add: get_historical_prices_def month_def start_def)
  have diff: "rows (day_table 30) \<noteq> rows empty_table"
    by (simp add: day_table_def empty_table_def)
  from get_historical_prices_default_period [OF h] h five diff show ?thesis
    by (simp add: start_def)
qed

section \<open>The info fetcher\<close>

text \<open>
  C4: whatever the ticker and the info bag of the provider, the result of the info
  fetcher has the nine fixed keys and no other; under \<open>Symbol\<close> it holds the ticker
  argument itself; under each other key it holds the placeholder \<open>N/A\<close> when the bag
  lacks the field of that key, and the field's value when the bag has it.
\<close>

theorem get_stock_info_nine_keys:
  assumes "info P ticker (pstate w) = (Inr bag, s')"
  shows "\<exists>d. get_stock_info P ticker w =
               (Inr d, \<lparr>calls = calls w @ [InfoCall ticker], pstate = s'\<rparr>)
           \<and> dict_keys d = [''Symbol'', ''Company Name'', ''Current Price'', ''Previous Close'',
                             ''Open'', ''Day High'', ''Day Low'', ''Volume'', ''Market Cap'']
           \<and> map_of d ''Symbol'' = Some (PyStr ticker)
           \<and> (\<forall>(key, field)\<in>set stock_info_fields.
                 (map_of bag field = None \<longrightarrow> map_of d key = Some (PyStr ''N/A''))
               \<and> (\<forall>v. map_of bag field = Some v \<longrightarrow> map_of d key = Some v))"
  using assms
  by (simp add: get_stock_info_def dict_keys_def dict_get_def stock_info_fields_def)

theorem get_stock_info_nine_keys_witness:
  "info fixed_quotes ''AAPL'' (pstate start) =
     (Inr [(''symbol'', PyStr ''XXXX''), (''longName'', PyStr ''Apple Inc.''),
           (''volume'', PyOther 5)], 1)
   \<and> get_stock_info fixed_quotes ''AAPL'' start =
       (Inr [(''Symbol'', PyStr ''AAPL''), (''Company Name'', PyStr ''Apple Inc.''),
             (''Current Price'', PyStr ''N/A''), (''Previous Close'', PyStr ''N/A''),
             (''Open'', PyStr ''N/A''), (''Day High'', PyStr ''N/A''),
             (''Day Low'', PyStr ''N/A''), (''Volume'', PyOther 5),
             (''Market Cap'', PyStr ''N/A'')],
        \<lparr>calls = [InfoCall ''AAPL''], pstate = 1\<rparr>)"
proof -
  have h: "info fixed_quotes ''AAPL'' (pstate start) =
     (Inr [(''symbol'', PyStr ''XXXX''), (''longName'', PyStr ''Apple Inc.''),
           (''volume'', PyOther 5)], 1)"
    by (simp add: fixed_quotes_def start_def)
  from get_stock_info_nine_keys [OF h] h show ?thesis
    by (simp add: get_stock_info_def dict_get_def start_def)
qed

section \<open>The batch quote aggregator\<close>

text \<open>The loop over a concatenation runs the first part, then the second on its outcome.\<close>

lemma loop_append:
  "get_multiple_stocks_loop P (xs @ ys) d w =
     (case get_multiple_stocks_loop P xs d w of
        (Inl e, w1) \<Rightarrow> (Inl e, w1)
      | (Inr d1, w1) \<Rightarrow> get_multiple_stocks_loop P ys d1 w1)"
  by (induction xs arbitrary: d w) (auto split: prod.splits sum.splits)

text \<open>The loop leaves the entry of a symbol it does not process as it was.\<close>

lemma loop_untouched:
  "get_multiple_stocks_loop P ts d w = (Inr d', w') \<Longrightarrow> t \<notin> set ts
     \<Longrightarrow> map_of d' t = map_of d t"
  by (induction ts arbitrary: d w) (auto simp: map_of_setitem split: prod.splits sum.splits)

text \<open>
  The keys after the loop: the keys before it, then the new symbols in the order of
  their first occurrence.
\<close>

lemma loop_keys:
  "get_multiple_stocks_loop P ts d w = (Inr d', w') \<Longrightarrow>
     dict_keys d' =
       dict_keys d @ filter (\<lambda>t. t \<notin> set (dict_keys d)) (rev (remdups (rev ts)))"
proof (induction ts arbitrary: d' w' rule: rev_induct)
  case Nil
  then show ?case by simp
next
  case (snoc x xs)
  from snoc.prems obtain d1 w1 where
    run: "get_multiple_stocks_loop P xs d w = (Inr d1, w1)"
    and step: "get_multiple_stocks_loop P [x] d1 w1 = (Inr d', w')"
    by (auto simp: loop_append split: prod.splits sum.splits)
  from step obtain v where d': "d' = setitem d1 x v"
    by (auto split: prod.splits sum.splits)
  have ih: "dict_keys d1 =
      dict_keys d @ filter (\<lambda>t. t \<notin> set (dict_keys d)) (rev (remdups (rev xs)))"
    by (rule snoc.IH [OF run])
  show ?case
    by (auto simp: d' keys_setitem ih)
qed

text \<open>A loop that completes has issued one history query per element, in order.\<close>

lemma loop_calls:
  "get_multiple_stocks_loop P ts d w = (Inr d', w') \<Longrightarrow>
     calls w' = calls w @ map (\<lambda>t. HistoryCall t ''1d'') ts"
proof (induction ts arbitrary: d w)
  case Nil
  then show ?case by simp
next
  case (Cons t ts)
  from Cons.prems obtain v w1 where
    one: "get_current_price P t w = (Inr v, w1)"
    and rest: "get_multiple_stocks_loop P ts (setitem d t v) w1 = (Inr d', w')"
    by (auto split: prod.splits sum.splits)
  have "calls w1 = calls w @ [HistoryCall t ''1d'']"
    using get_current_price_calls [of P t w] one by simp
  with Cons.IH [OF rest] show ?case by simp
qed

text \<open>
  Whatever the outcome, the queries issued are those of a prefix of the list: the loop
  never skips an element and never goes back.
\<close>

lemma loop_calls_prefix:
  "\<exists>n\<le>length ts. calls (snd (get_multiple_stocks_loop P ts d w))
       = calls w @ map (\<lambda>t. HistoryCall t ''1d'') (take n ts)"
proof (induction ts arbitrary: d w)
  case Nil
  then show ?case by simp
next
  case (Cons t ts)
  obtain r w1 where one: "get_current_price P t w = (r, w1)"
    by (cases "get_current_price P t w")
  have c1: "calls w1 = calls w @ [HistoryCall t ''1d'']"
    using get_current_price_calls [of P t w] one by simp
  show ?case
  proof (cases r)
    case (Inl e)
    with one c1 have "calls (snd (get_multiple_stocks_loop P (t # ts) d w))
        = calls w @ map (\<lambda>t. HistoryCall t ''1d'') (take 1 (t # ts))"
      by simp
    then show ?thesis
      by (intro exI [of _ 1]) simp
  next
    case (Inr v)
    from Cons.IH [of "setitem d t v" w1] obtain n where
      n: "n \<le> length ts"
      and c: "calls (snd (get_multiple_stocks_loop P ts (setitem d t v) w1))
          = calls w1 @ map (\<lambda>t. HistoryCall t ''1d'') (take n ts)"
      by blast
    from one Inr c c1 have "calls (snd (get_multiple_stocks_loop P (t # ts) d w))
        = calls w @ map (\<lambda>t. HistoryCall t ''1d'') (take (Suc n) (t # ts))"
      by simp
    with n show ?thesis
      by (intro exI [of _ "Suc n"]) simp
  qed
qed

text \<open>
  When the fetcher's answer for each symbol of the list is the same in every world,
  the loop completes and stores that answer for each of them.
\<close>

lemma loop_of_isolated:
  assumes "\<forall>t\<in>set ts. \<forall>w1. fst (get_current_price P t w1) = Inr (q t)"
  shows "\<exists>d' w'. get_multiple_stocks_loop P ts d w = (Inr d', w')
           \<and> map_of d' = (\<lambda>t. if t \<in> set ts then Some (q t) else map_of d t)"
  using assms
proof (induction ts arbitrary: d w)
  case Nil
  then show ?case by simp
next
  case (Cons t ts)
  from Cons.prems have "fst (get_current_price P t w) = Inr (q t)" by simp
  then obtain w1 where one: "get_current_price P t w = (Inr (q t), w1)"
    by (cases "get_current_price P t w") simp
  from Cons.prems have "\<forall>t\<in>set ts. \<forall>w1. fst (get_current_price P t w1) = Inr (q t)"
    by simp
  from Cons.IH [OF this, of "setitem d t (q t)" w1] obtain d' w' where
    rest: "get_multiple_stocks_loop P ts (setitem d t (q t)) w1 = (Inr d', w')"
    and m: "map_of d' = (\<lambda>u. if u \<in> set ts then Some (q u) else map_of (setitem d t (q t)) u)"
    by blast
  from one rest have "get_multiple_stocks_loop P (t # ts) d w = (Inr d', w')" by simp
  moreover from m have "map_of d' = (\<lambda>u. if u \<in> set (t # ts) then Some (q u) else map_of d u)"
    by (auto simp: map_of_setitem fun_eq_iff)
  ultimately show ?case by blast
qed

text \<open>
  For every provider, also one whose answers change from call to call: a call that
  completes returns a mapping whose keys are the symbols of the list, each once.
\<close>

lemma get_multiple_stocks_keys:
  assumes "get_multiple_stocks P tickers w = (Inr prices, w')"
  shows "set (dict_keys prices) = set tickers \<and> distinct (dict_keys prices)"
proof -
  from assms have "get_multiple_stocks_loop P tickers [] w = (Inr prices, w')"
    by (simp add: get_multiple_stocks_def)
  from loop_keys [OF this] have "dict_keys prices = rev (remdups (rev tickers))"
    by (simp add: dict_keys_def)
  then show ?thesis by simp
qed

text \<open>
  When the fetcher's answer for each symbol of the list is the same in every world, the
  aggregator completes and stores that answer under each of them.
\<close>

lemma get_multiple_stocks_stable_answers:
  assumes "\<forall>t\<in>set tickers. \<forall>w1. fst (get_current_price P t w1) = Inr (q t)"
  shows "\<exists>prices w'. get_multiple_stocks P tickers w = (Inr prices, w')
           \<and> (\<forall>t\<in>set tickers. map_of prices t = Some (q t))"
proof -
  from loop_of_isolated [OF assms, of "[]" w] obtain prices w' where
    run: "get_multiple_stocks_loop P tickers [] w = (Inr prices, w')"
    and vals: "map_of prices = (\<lambda>t. if t \<in> set tickers then Some (q t) else map_of [] t)"
    by blast
  have "\<forall>t\<in>set tickers. map_of prices t = Some (q t)"
    by (simp add: vals)
  with run show ?thesis
    by (simp add: get_multiple_stocks_def)
qed

text \<open>
  C1, as the code has it: for every list of ticker symbols and every provider, a call
  of the aggregator that completes returns a mapping whose keys are the symbols that
  occur in the list, each once, and whose value for a symbol \<open>t\<close> is what the quote
  fetcher returned for \<open>t\<close> at the last occurrence of \<open>t\<close> in the list: the list is
  \<open>pre @ t # post\<close> with no \<open>t\<close> in \<open>post\<close>, the aggregator run on \<open>pre\<close> alone ends in
  the world \<open>w1\<close>, and the value is the result of a call of the fetcher for \<open>t\<close> in \<open>w1\<close>.
\<close>

theorem get_multiple_stocks_keys_and_values:
  assumes "get_multiple_stocks P tickers w = (Inr prices, w')"
  shows "set (dict_keys prices) = set tickers
         \<and> distinct (dict_keys prices)
         \<and> (\<forall>t\<in>set tickers. \<exists>pre post d1 w1 v w2.
               tickers = pre @ t # post \<and> t \<notin> set post
             \<and> get_multiple_stocks P pre w = (Inr d1, w1)
             \<and> get_current_price P t w1 = (Inr v, w2)
             \<and> map_of prices t = Some v)"
proof -
  from assms have run: "get_multiple_stocks_loop P tickers [] w = (Inr prices, w')"
    by (simp add: get_multiple_stocks_def)
  have keys: "dict_keys prices = rev (remdups (rev tickers))"
    using loop_keys [OF run] by (simp add: dict_keys_def)
  have k1: "set (dict_keys prices) = set tickers"
    by (simp add: keys)
  have k2: "distinct (dict_keys prices)"
    by (simp add: keys)
  have vals: "\<forall>t\<in>set tickers. \<exists>pre post d1 w1 v w2.
               tickers = pre @ t # post \<and> t \<notin> set post
             \<and> get_multiple_stocks P pre w = (Inr d1, w1)
             \<and> get_current_price P t w1 = (Inr v, w2)
             \<and> map_of prices t = Some v"
  proof
    fix t
    assume "t \<in> set tickers"
    then obtain pre post where sp: "tickers = pre @ t # post" and last: "t \<notin> set post"
      using split_list_last [of t tickers] by blast
    from run sp have whole: "get_multiple_stocks_loop P (pre @ t # post) [] w = (Inr prices, w')"
      by simp
    obtain r1 w1 where p: "get_multiple_stocks_loop P pre [] w = (r1, w1)"
      by (cases "get_multiple_stocks_loop P pre [] w")
    from whole p obtain d1 where r1: "r1 = Inr d1"
      by (cases r1) (simp_all add: loop_append)
    obtain r2 w2 where f: "get_current_price P t w1 = (r2, w2)"
      by (cases "get_current_price P t w1")
    from whole p r1 f obtain v where r2: "r2 = Inr v"
      by (cases r2) (simp_all add: loop_append)
    from whole p r1 f r2
    have rest: "get_multiple_stocks_loop P post (setitem d1 t v) w2 = (Inr prices, w')"
      by (simp add: loop_append)
    from loop_untouched [OF rest last] have val: "map_of prices t = Some v"
      by (simp add: map_of_setitem)
    from p r1 have pre_run: "get_multiple_stocks P pre w = (Inr d1, w1)"
      by (simp add: get_multiple_stocks_def)
    from f r2 have fetch: "get_current_price P t w1 = (Inr v, w2)"
      by simp
    from sp last pre_run fetch val
    show "\<exists>pre post d1 w1 v w2.
               tickers = pre @ t # post \<and> t \<notin> set post
             \<and> get_multiple_stocks P pre w = (Inr d1, w1)
             \<and> get_current_price P t w1 = (Inr v, w2)
             \<and> map_of prices t = Some v"
      by blast
  qed
  from k1 k2 vals show ?thesis
    by (intro conjI)
qed

theorem get_multiple_stocks_keys_and_values_witness:
  "get_multiple_stocks ten_then_twelve [''A'', ''B'', ''A''] start
     = (Inr [(''A'', Some 12), (''B'', Some 12)],
        \<lparr>calls = [HistoryCall ''A'' ''1d'', HistoryCall ''B'' ''1d'', HistoryCall ''A'' ''1d''],
          pstate = 3\<rparr>)
   \<and> set (dict_keys [(''A'', Some (12::real)), (''B'', Some 12)]) = set [''A'', ''B'', ''A'']
   \<and> distinct (dict_keys [(''A'', Some (12::real)), (''B'', Some 12)])
   \<and> (\<exists>pre post d1 w1 v w2.
         [''A'', ''B'', ''A''] = pre @ ''A'' # post \<and> ''A'' \<notin> set post
       \<and> get_multiple_stocks ten_then_twelve pre start = (Inr d1, w1)
       \<and> get_current_price ten_then_twelve ''A'' w1 = (Inr v, w2)
       \<and> map_of [(''A'', Some (12::real)), (''B'', Some 12)] ''A'' = Some v)
   \<and> (\<exists>pre post d1 w1 v w2.
         [''A'', ''B'', ''A''] = pre @ ''B'' # post \<and> ''B'' \<notin> set post
       \<and> get_multiple_stocks ten_then_twelve pre start = (Inr d1, w1)
       \<and> get_current_price ten_then_twelve ''B'' w1 = (Inr v, w2)
       \<and> map_of [(''A'', Some (12::real)), (''B'', Some 12)] ''B'' = Some v)
   \<and> get_multiple_stocks ten_then_twelve [''A'', ''B''] start
     = (Inr [(''A'', Some 10), (''B'', Some 12)],
        \<lparr>calls = [HistoryCall ''A'' ''1d'', HistoryCall ''B'' ''1d''], pstate = 2\<rparr>)
   \<and> get_current_price ten_then_twelve ''A''
        \<lparr>calls = [HistoryCall ''A'' ''1d'', HistoryCall ''B'' ''1d''], pstate = 2\<rparr>
     = (Inr (Some 12),
        \<lparr>calls = [HistoryCall ''A'' ''1d'', HistoryCall ''B'' ''1d'', HistoryCall ''A'' ''1d''],
          pstate = 3\<rparr>)"
proof -
  have h: "get_multiple_stocks ten_then_twelve [''A'', ''B'', ''A''] start
     = (Inr [(''A'', Some 12), (''B'', Some 12)],
        \<lparr>calls = [HistoryCall ''A'' ''1d'', HistoryCall ''B'' ''1d'', HistoryCall ''A'' ''1d''],
          pstate = 3\<rparr>)"
    by (simp add: get_multiple_stocks_def get_current_price_def ten_then_twelve_def start_def
        day_table_def df_empty_def df_getitem_def iloc_last_def)
  note all = get_multiple_stocks_keys_and_values [OF h]
  from all have k1:
    "set (dict_keys [(''A'', Some (12::real)), (''B'', Some 12)]) = set [''A'', ''B'', ''A'']"
    by (rule conjunct1)
  from all have k2: "distinct (dict_keys [(''A'', Some (12::real)), (''B'', Some 12)])"
    by (rule conjunct2 [THEN conjunct1])
  from all have vals: "\<forall>t\<in>set [''A'', ''B'', ''A'']. \<exists>pre post d1 w1 v w2.
         [''A'', ''B'', ''A''] = pre @ t # post \<and> t \<notin> set post
       \<and> get_multiple_stocks ten_then_twelve pre start = (Inr d1, w1)
       \<and> get_current_price ten_then_twelve t w1 = (Inr v, w2)
       \<and> map_of [(''A'', Some (12::real)), (''B'', Some 12)] t = Some v"
    by (rule conjunct2 [THEN conjunct2])
  have inA: "''A'' \<in> set [''A'', ''B'', ''A'']" by simp
  have inB: "''B'' \<in> set [''A'', ''B'', ''A'']" by simp
  note vA = bspec [OF vals inA]
  note vB = bspec [OF vals inB]
  have two: "get_multiple_stocks ten_then_twelve [''A'', ''B''] start
     = (Inr [(''A'', Some 10), (''B'', Some 12)],
        \<lparr>calls = [HistoryCall ''A'' ''1d'', HistoryCall ''B'' ''1d''], pstate = 2\<rparr>)"
    by (simp add: get_multiple_stocks_def get_current_price_def ten_then_twelve_def start_def
        day_table_def df_empty_def df_getitem_def iloc_last_def)
  have third: "get_current_price ten_then_twelve ''A''
        \<lparr>calls = [HistoryCall ''A'' ''1d'', HistoryCall ''B'' ''1d''], pstate = 2\<rparr>
     = (Inr (Some 12),
        \<lparr>calls = [HistoryCall ''A'' ''1d'', HistoryCall ''B'' ''1d'', HistoryCall ''A'' ''1d''],
          pstate = 3\<rparr>)"
    by (simp add: get_current_price_def ten_then_twelve_def
        day_table_def df_empty_def df_getitem_def iloc_last_def)
  show ?thesis
    by (intro conjI) (rule h k1 k2 vA vB two third)+
qed

text \<open>
  C1 as it is worded does not hold of every provider: with the provider that answers
  10, then 12, the aggregator on \<open>[A, B]\<close> stores 12 for \<open>B\<close>, the answer to the second
  query, while a call of the fetcher for \<open>B\<close> on its own, from the same initial world,
  returns 10.
\<close>

theorem get_multiple_stocks_isolated_counterexample:
  "get_multiple_stocks ten_then_twelve [''A'', ''B''] start
     = (Inr [(''A'', Some 10), (''B'', Some 12)],
        \<lparr>calls = [HistoryCall ''A'' ''1d'', HistoryCall ''B'' ''1d''], pstate = 2\<rparr>)
   \<and> map_of [(''A'', Some (10::real)), (''B'', Some 12)] ''B'' = Some (Some 12)
   \<and> get_current_price ten_then_twelve ''B'' start
     = (Inr (Some 10), \<lparr>calls = [HistoryCall ''B'' ''1d''], pstate = 1\<rparr>)
   \<and> Some (12::real) \<noteq> Some 10"
  by (simp add: get_multiple_stocks_def get_current_price_def ten_then_twelve_def start_def
      day_table_def df_empty_def df_getitem_def iloc_last_def)

text \<open>
  C5: the value stored for a symbol is the one fetched at its last occurrence in the
  list. The list is \<open>pre @ t # post\<close> with no \<open>t\<close> in \<open>post\<close>; \<open>w1\<close> is the world after the
  aggregator has processed \<open>pre\<close>, and \<open>v\<close> what the fetcher returns for \<open>t\<close> there. In the
  scenario the list is \<open>[A, A]\<close> and the provider answers 10, then 12: the mapping
  returned is \<open>{A: 12}\<close>.
\<close>

theorem last_occurrence_wins:
  assumes "get_multiple_stocks P pre w = (Inr d1, w1)"
      and "get_current_price P t w1 = (Inr v, w2)"
      and "t \<notin> set post"
      and "get_multiple_stocks P (pre @ t # post) w = (Inr prices, w')"
  shows "map_of prices t = Some v"
proof -
  from assms(1,2,4)
  have "get_multiple_stocks_loop P post (setitem d1 t v) w2 = (Inr prices, w')"
    by (simp add: get_multiple_stocks_def loop_append)
  from loop_untouched [OF this assms(3)] show ?thesis
    by (simp add: map_of_setitem)
qed

theorem last_occurrence_wins_witness:
  "get_multiple_stocks ten_then_twelve [''A''] start
     = (Inr [(''A'', Some 10)], \<lparr>calls = [HistoryCall ''A'' ''1d''], pstate = 1\<rparr>)
   \<and> get_current_price ten_then_twelve ''A'' \<lparr>calls = [HistoryCall ''A'' ''1d''], pstate = 1\<rparr>
     = (Inr (Some 12),
        \<lparr>calls = [HistoryCall ''A'' ''1d'', HistoryCall ''A'' ''1d''], pstate = 2\<rparr>)
   \<and> ''A'' \<notin> set []
   \<and> get_multiple_stocks ten_then_twelve [''A'', ''A''] start
     = (Inr [(''A'', Some 12)],
        \<lparr>calls = [HistoryCall ''A'' ''1d'', HistoryCall ''A'' ''1d''], pstate = 2\<rparr>)
   \<and> map_of [(''A'', Some (12::real))] ''A'' = Some (Some 12)"
proof -
  let ?w1 = "\<lparr>calls = [HistoryCall ''A'' ''1d''], pstate = 1::nat\<rparr>"
  let ?w2 = "\<lparr>calls = [HistoryCall ''A'' ''1d'', HistoryCall ''A'' ''1d''], pstate = 2::nat\<rparr>"
  have h1: "get_multiple_stocks ten_then_twelve [''A''] start = (Inr [(''A'', Some 10)], ?w1)"
    by (simp add: get_multiple_stocks_def get_current_price_def ten_then_twelve_def start_def
        day_table_def df_empty_def df_getitem_def iloc_last_def)
  have h2: "get_current_price ten_then_twelve ''A'' ?w1 = (Inr (Some 12), ?w2)"
    by (simp add: get_current_price_def ten_then_twelve_def day_table_def
        df_empty_def df_getitem_def iloc_last_def)
  have h3: "''A'' \<notin> set []" by simp
  have h4: "get_multiple_stocks ten_then_twelve ([''A''] @ ''A'' # []) start
              = (Inr [(''A'', Some 12)], ?w2)"
    by (simp add: get_multiple_stocks_def get_current_price_def ten_then_twelve_def start_def
        day_table_def df_empty_def df_getitem_def iloc_last_def)
  from last_occurrence_wins [OF h1 h2 h3 h4] h1 h2 h3 h4 show ?thesis
    by simp
qed

text \<open>
  C7: on the empty list the aggregator returns the empty mapping and leaves the world
  as it was: the trace of queries has not grown, no query was issued.
\<close>

theorem get_multiple_stocks_empty:
  "get_multiple_stocks P [] w = (Inr [], w)
   \<and> calls (snd (get_multiple_stocks P [] w)) = calls w"
  by (simp add: get_multiple_stocks_def)

text \<open>
  C8: when the fetch for a symbol of the list fails, the fetches before it having
  succeeded, the aggregator returns no mapping: its outcome is that failure, and the
  world is the one the failing fetch left, so that no later symbol is queried.
\<close>

theorem failure_aborts_batch:
  assumes "get_multiple_stocks P pre w = (Inr d1, w1)"
      and "get_current_price P t w1 = (Inl e, w2)"
  shows "get_multiple_stocks P (pre @ t # post) w = (Inl e, w2)"
  using assms by (simp add: get_multiple_stocks_def loop_append)

theorem failure_aborts_batch_witness:
  "get_multiple_stocks fixed_quotes [''AAPL''] start
     = (Inr [(''AAPL'', Some 150)], \<lparr>calls = [HistoryCall ''AAPL'' ''1d''], pstate = 1\<rparr>)
   \<and> get_current_price fixed_quotes ''BAD'' \<lparr>calls = [HistoryCall ''AAPL'' ''1d''], pstate = 1\<rparr>
     = (Inl (ProviderFailure ''timeout''),
        \<lparr>calls = [HistoryCall ''AAPL'' ''1d'', HistoryCall ''BAD'' ''1d''], pstate = 2\<rparr>)
   \<and> get_multiple_stocks fixed_quotes [''AAPL'', ''BAD'', ''MSFT''] start
     = (Inl (ProviderFailure ''timeout''),
        \<lparr>calls = [HistoryCall ''AAPL'' ''1d'', HistoryCall ''BAD'' ''1d''], pstate = 2\<rparr>)"
proof -
  let ?w1 = "\<lparr>calls = [HistoryCall ''AAPL'' ''1d''], pstate = 1::nat\<rparr>"
  have h1: "get_multiple_stocks fixed_quotes [''AAPL''] start
              = (Inr [(''AAPL'', Some 150)], ?w1)"
    by (simp add: get_multiple_stocks_def get_current_price_def fixed_quotes_def start_def
        day_table_def df_empty_def df_getitem_def iloc_last_def)
  have h2: "get_current_price fixed_quotes ''BAD'' ?w1
     = (Inl (ProviderFailure ''timeout''),
        \<lparr>calls = [HistoryCall ''AAPL'' ''1d'', HistoryCall ''BAD'' ''1d''], pstate = 2\<rparr>)"
    by (simp add: get_current_price_def fixed_quotes_def)
  from failure_aborts_batch [OF h1 h2, of "[''MSFT'']"] h1 h2 show ?thesis
    by simp
qed

text \<open>
  C9: an aggregator call that completes has issued one one-day history query (one call
  of the quote fetcher) per element of the list, in the order of the list, and nothing
  else; the keys of the mapping stand in the order in which the symbols first occur in
  the list, which is the list itself when no symbol is repeated.
\<close>

theorem sequential_calls_and_key_order:
  assumes "get_multiple_stocks P tickers w = (Inr prices, w')"
  shows "calls w' = calls w @ map (\<lambda>t. HistoryCall t ''1d'') tickers
         \<and> dict_keys prices = rev (remdups (rev tickers))
         \<and> (distinct tickers \<longrightarrow> dict_keys prices = tickers)"
proof -
  from assms have run: "get_multiple_stocks_loop P tickers [] w = (Inr prices, w')"
    by (simp add: get_multiple_stocks_def)
  have keys: "dict_keys prices = rev (remdups (rev tickers))"
    using loop_keys [OF run] by (simp add: dict_keys_def)
  have "distinct tickers \<Longrightarrow> rev (remdups (rev tickers)) = tickers"
    by (simp add: distinct_remdups_id)
  with keys loop_calls [OF run] show ?thesis by simp
qed

theorem sequential_calls_and_key_order_witness:
  "get_multiple_stocks ten_then_twelve [''AAPL'', ''GOOGL'', ''MSFT'', ''TSLA''] start
     = (Inr [(''AAPL'', Some 10), (''GOOGL'', Some 12), (''MSFT'', Some 12), (''TSLA'', Some 12)],
        \<lparr>calls = [HistoryCall ''AAPL'' ''1d'', HistoryCall ''GOOGL'' ''1d'',
                  HistoryCall ''MSFT'' ''1d'', HistoryCall ''TSLA'' ''1d''], pstate = 4\<rparr>)
   \<and> distinct [''AAPL'', ''GOOGL'', ''MSFT'', ''TSLA'']
   \<and> dict_keys [(''AAPL'', Some (10::real)), (''GOOGL'', Some 12), (''MSFT'', Some 12),
                 (''TSLA'', Some 12)]
       = [''AAPL'', ''GOOGL'', ''MSFT'', ''TSLA'']"
proof -
  have h: "get_multiple_stocks ten_then_twelve [''AAPL'', ''GOOGL'', ''MSFT'', ''TSLA''] start
     = (Inr [(''AAPL'', Some 10), (''GOOGL'', Some 12), (''MSFT'', Some 12), (''TSLA'', Some 12)],
        \<lparr>calls = [HistoryCall ''AAPL'' ''1d'', HistoryCall ''GOOGL'' ''1d'',
                  HistoryCall ''MSFT'' ''1d'', HistoryCall ''TSLA'' ''1d''], pstate = 4\<rparr>)"
    by (simp add: get_multiple_stocks_def get_current_price_def ten_then_twelve_def start_def
        day_table_def df_empty_def df_getitem_def iloc_last_def)
  have d: "distinct [''AAPL'', ''GOOGL'', ''MSFT'', ''TSLA'']" by simp
  from sequential_calls_and_key_order [OF h] h d show ?thesis
    by blast
qed

end
